theory Spec2Isabelle
  imports Complex_Main "HOL-Library.Product_Lexorder"
begin

section \<open>Numbers, errors and dictionaries\<close>

text \<open>
  The training pipeline of \<^verbatim>\<open>backend/src/ml/train.py\<close> is embedded function by function.
  Python floats are idealised as real numbers: every constant of the source is a short
  decimal and the results the theorems speak about are far from any rounding boundary.
  A raised exception is a value of type \<open>error\<close> on the left of a sum.
\<close>

datatype error = KeyError string | ValueError

text \<open>\<^verbatim>\<open>d[k]\<close> on a Python dict: the value stored under the key, KeyError when it is absent.\<close>

definition getitem :: "(string \<rightharpoonup> 'a) \<Rightarrow> string \<Rightarrow> error + 'a" where
  "getitem d k = (case d k of None \<Rightarrow> Inl (KeyError k) | Some v \<Rightarrow> Inr v)"

text \<open>
  \<^verbatim>\<open>round(x, 2)\<close>: the nearest multiple of one hundredth, a tie going to the even
  neighbour.
\<close>

definition round_half_even :: "real \<Rightarrow> int" where
  "round_half_even y =
     (let f = \<lfloor>y\<rfloor>; d = y - of_int f
      in if d < 1 / 2 then f
         else if 1 / 2 < d then f + 1
         else if even f then f else f + 1)"

definition round2 :: "real \<Rightarrow> real" where
  "round2 x = of_int (round_half_even (x * 100)) / 100"

section \<open>Disease risk scoring\<close>

record risk_scores =
  asthma_risk :: real
  copd_risk :: real
  cardiovascular_risk :: real
  allergy_risk :: real

text \<open>
  \<^verbatim>\<open>calculate_disease_probabilities(exposure_data)\<close>, lines 269 to 314. The dict is read at
  three keys, in the order of the source; \<^verbatim>\<open>duration_days\<close> is never read.
\<close>

definition calculate_disease_probabilities :: "(string \<rightharpoonup> real) \<Rightarrow> error + risk_scores" where
  "calculate_disease_probabilities exposure_data =
     (case getitem exposure_data ''avg_pm25'' of Inl e \<Rightarrow> Inl e | Inr pm25 \<Rightarrow>
     (case getitem exposure_data ''peak_pm25'' of Inl e \<Rightarrow> Inl e | Inr peak \<Rightarrow>
     (case getitem exposure_data ''hours_unhealthy'' of Inl e \<Rightarrow> Inl e | Inr hours \<Rightarrow>
        let asthma_base = min 100 ((pm25 / 35) * 50);
            asthma_peak_factor = 1 + (peak / 100) * (1 / 2);
            asthma = min 100 (asthma_base * asthma_peak_factor);
            copd = min 100 ((pm25 / 50) * 40 + (hours / 720) * 30);
            cvd = min 100 ((pm25 / 40) * 35 + (peak / 150) * 40);
            allergy = min 100 ((pm25 / 30) * 30)
        in Inr \<lparr>asthma_risk = round2 asthma,
                 copd_risk = round2 copd,
                 cardiovascular_risk = round2 cvd,
                 allergy_risk = round2 allergy\<rparr>)))"

section \<open>Python sequences\<close>

text \<open>\<^verbatim>\<open>range(n)\<close>: the integers from 0 below \<open>n\<close>, none when \<open>n\<close> is not positive.\<close>

definition py_range :: "int \<Rightarrow> int list" where
  "py_range n = map int [0..<nat n]"

text \<open>
  \<^verbatim>\<open>xs[i:j]\<close>: a negative bound counts from the end, and both bounds are clipped to
  the sequence; the slice is empty when the bounds cross.
\<close>

definition py_slice :: "'a list \<Rightarrow> int \<Rightarrow> int \<Rightarrow> 'a list" where
  "py_slice xs i j =
     (let n = int (length xs);
          lo = (if i < 0 then max 0 (i + n) else min i n);
          hi = (if j < 0 then max 0 (j + n) else min j n)
      in take (nat (hi - lo)) (drop (nat lo) xs))"

text \<open>\<^verbatim>\<open>Series.unique()\<close>: the distinct values in order of first appearance.\<close>

fun unique :: "'a list \<Rightarrow> 'a list" where
  "unique [] = []"
| "unique (x # xs) = x # unique (filter (\<lambda>y. y \<noteq> x) xs)"

section \<open>Measurements\<close>

text \<open>
  A cell of the data frame is a float or missing (SQL NULL, pandas NaN): \<open>None\<close> is the
  missing value. A row carries the columns that the pipeline reads; the columns it never
  reads (\<^verbatim>\<open>co2_equiv\<close>, \<^verbatim>\<open>pm25_api\<close>, \<^verbatim>\<open>aqi_category\<close>, \<^verbatim>\<open>latitude\<close>,
  \<^verbatim>\<open>longitude\<close>) live in the extension slot of the record. \<^verbatim>\<open>measured_at\<close> is a timestamp
  in seconds, without a time zone.
\<close>

type_synonym cell = "real option"

record 'd measurement =
  measured_at :: int
  device_id :: 'd
  aqi_calculated :: cell
  iaq_score :: cell
  temperature :: cell
  humidity :: cell
  pressure_hpa :: cell
  hour_of_day :: cell
  day_of_week :: cell

text \<open>\<^verbatim>\<open>fillna(v)\<close> on one cell.\<close>

definition fillna :: "real \<Rightarrow> cell \<Rightarrow> real" where
  "fillna v c = (case c of None \<Rightarrow> v | Some x \<Rightarrow> x)"

text \<open>
  \<^verbatim>\<open>row[name]\<close> for the feature columns. The names are those of \<open>feature_cols\<close> below;
  the last branch is never reached from them.
\<close>

definition column :: "string \<Rightarrow> ('d, 'z) measurement_scheme \<Rightarrow> cell" where
  "column name r =
     (if name = ''aqi_calculated'' then aqi_calculated r
      else if name = ''iaq_score'' then iaq_score r
      else if name = ''temperature'' then temperature r
      else if name = ''humidity'' then humidity r
      else if name = ''pressure_hpa'' then pressure_hpa r
      else if name = ''hour_of_day'' then hour_of_day r
      else if name = ''day_of_week'' then day_of_week r
      else None)"

section \<open>Min-max scaling\<close>

text \<open>
  Modelled from the spec: the class \<^verbatim>\<open>MinMaxScaler\<close> that \<^verbatim>\<open>prepare_lstm_data\<close>
  instantiates comes from scikit-learn and is not part of \<^verbatim>\<open>src/\<close>. Following the
  FeatureScaler contract, fitting computes the minimum and the maximum of every feature
  over all rows, and applying maps \<open>x\<close> to \<open>(x - min) / (max - min)\<close>, defined as 0 when
  \<open>max = min\<close>. The spec is silent on a corpus without rows, where no minimum exists:
  the model raises \<open>ValueError\<close> there.
\<close>

record MinMaxScaler =
  data_min :: "real list"
  data_max :: "real list"

definition fit :: "real list list \<Rightarrow> error + MinMaxScaler" where
  "fit X =
     (if X = [] then Inl ValueError
      else Inr \<lparr>data_min = map (\<lambda>j. Min (set (map (\<lambda>row. row ! j) X))) [0..<length (hd X)],
                data_max = map (\<lambda>j. Max (set (map (\<lambda>row. row ! j) X))) [0..<length (hd X)]\<rparr>)"

definition scale_value :: "real \<Rightarrow> real \<Rightarrow> real \<Rightarrow> real" where
  "scale_value mn mx x = (if mx = mn then 0 else (x - mn) / (mx - mn))"

definition transform :: "MinMaxScaler \<Rightarrow> real list list \<Rightarrow> real list list" where
  "transform scaler X =
     map (\<lambda>row. map (\<lambda>j. scale_value (data_min scaler ! j) (data_max scaler ! j) (row ! j))
                    [0..<length row]) X"

definition fit_transform :: "real list list \<Rightarrow> error + MinMaxScaler \<times> real list list" where
  "fit_transform X =
     (case fit X of Inl e \<Rightarrow> Inl e | Inr scaler \<Rightarrow> Inr (scaler, transform scaler X))"

section \<open>Sequences for the forecaster\<close>

definition feature_cols :: "string list" where
  "feature_cols = [''aqi_calculated'', ''iaq_score'', ''temperature'', ''humidity'',
                   ''pressure_hpa'', ''hour_of_day'', ''day_of_week'']"

text \<open>What \<^verbatim>\<open>json.dump\<close> writes.\<close>

datatype json = JNum real | JStr string | JArr "json list" | JObj "(string \<times> json) list"

definition json_field :: "json \<Rightarrow> string \<Rightarrow> json option" where
  "json_field v k = (case v of JObj kvs \<Rightarrow> map_of kvs k | _ \<Rightarrow> None)"

text \<open>Lines 77 to 81: the dict \<^verbatim>\<open>scaler_params\<close>, keys in insertion order.\<close>

definition scaler_params :: "MinMaxScaler \<Rightarrow> json" where
  "scaler_params scaler =
     JObj [(''min'', JArr (map JNum (data_min scaler))),
           (''max'', JArr (map JNum (data_max scaler))),
           (''feature_cols'', JArr (map JStr feature_cols))]"

text \<open>Line 74: the matrix \<^verbatim>\<open>df[feature_cols].fillna(0)\<close>, one row per measurement.\<close>

definition filled_matrix :: "('d, 'z) measurement_scheme list \<Rightarrow> real list list" where
  "filled_matrix df = map (\<lambda>r. map (\<lambda>c. fillna 0 (column c r)) feature_cols) df"

text \<open>
  Lines 66 to 74: sort by device and time, fill the missing feature cells with 0, fit the
  scaler on the filled matrix and scale that same matrix. The frame that the rest of the
  function reads is kept as pairs of device and scaled feature row.
\<close>

definition scale_features ::
  "('d::linorder, 'z) measurement_scheme list \<Rightarrow> error + MinMaxScaler \<times> ('d \<times> real list) list" where
  "scale_features df =
     (let df = sort_key (\<lambda>r. (device_id r, measured_at r)) df
      in case fit_transform (filled_matrix df) of
           Inl e \<Rightarrow> Inl e
         | Inr (scaler, scaled) \<Rightarrow> Inr (scaler, zip (map device_id df) scaled))"

text \<open>Line 89: the feature rows of one device, \<^verbatim>\<open>df[df['device_id'] == device_id][feature_cols].values\<close>.\<close>

definition device_data :: "('d \<times> real list) list \<Rightarrow> 'd \<Rightarrow> real list list" where
  "device_data df dev = map snd (filter (\<lambda>r. fst r = dev) df)"

text \<open>Lines 91 to 94: the loop over the start offsets of one device, appending to \<open>X\<close> and \<open>y\<close>.\<close>

definition device_sequences ::
  "real list list \<Rightarrow> int \<Rightarrow> int \<Rightarrow> real list list list \<times> real list list
    \<Rightarrow> real list list list \<times> real list list" where
  "device_sequences dd lookback forecast_horizon Xy =
     fold (\<lambda>i (X, y).
             (X @ [py_slice dd i (i + lookback)],
              y @ [map (\<lambda>row. row ! 0)
                     (py_slice dd (i + lookback) (i + lookback + forecast_horizon))]))
          (py_range (int (length dd) - lookback - forecast_horizon)) Xy"

text \<open>Lines 85 to 94: the loop over the devices.\<close>

definition create_sequences ::
  "('d \<times> real list) list \<Rightarrow> int \<Rightarrow> int \<Rightarrow> real list list list \<times> real list list" where
  "create_sequences df lookback forecast_horizon =
     fold (\<lambda>dev Xy. device_sequences (device_data df dev) lookback forecast_horizon Xy)
          (unique (map fst df)) ([], [])"

text \<open>
  \<^verbatim>\<open>prepare_lstm_data(df, lookback, forecast_horizon)\<close>, lines 61 to 96. The files written
  so far are a map from path to content, returned updated.
\<close>

definition prepare_lstm_data ::
  "(string \<rightharpoonup> json) \<Rightarrow> ('d::linorder, 'z) measurement_scheme list \<Rightarrow> int \<Rightarrow> int
    \<Rightarrow> error + real list list list \<times> real list list \<times> MinMaxScaler \<times> (string \<rightharpoonup> json)" where
  "prepare_lstm_data files df lookback forecast_horizon =
     (case scale_features df of
        Inl e \<Rightarrow> Inl e
      | Inr (scaler, df) \<Rightarrow>
          let files = files(''models/scaler_params.json'' \<mapsto> scaler_params scaler);
              (X, y) = create_sequences df lookback forecast_horizon
          in Inr (X, y, scaler, files))"

section \<open>Daily aggregates and risk labels\<close>

text \<open>Line 172: the calendar date of a timestamp, as a day number.\<close>

definition date_of :: "int \<Rightarrow> int" where
  "date_of t = t div 86400"

text \<open>
  The aggregations of \<^verbatim>\<open>groupby(...).agg\<close> skip missing cells. The mean and the maximum of
  no value are missing; the standard deviation is the sample one (one degree of freedom
  removed) and is missing for fewer than two values.
\<close>

definition dropna :: "cell list \<Rightarrow> real list" where
  "dropna cs = map the (filter (\<lambda>c. c \<noteq> None) cs)"

definition agg_mean :: "cell list \<Rightarrow> cell" where
  "agg_mean cs =
     (let xs = dropna cs
      in if xs = [] then None else Some (sum_list xs / real (length xs)))"

definition agg_max :: "cell list \<Rightarrow> cell" where
  "agg_max cs = (let xs = dropna cs in if xs = [] then None else Some (Max (set xs)))"

definition agg_std :: "cell list \<Rightarrow> cell" where
  "agg_std cs =
     (let xs = dropna cs; n = length xs
      in if n < 2 then None
         else let m = sum_list xs / real n
              in Some (sqrt (sum_list (map (\<lambda>x. (x - m)\<^sup>2) xs) / real (n - 1))))"

record 'd daily =
  daily_device_id :: 'd
  date :: int
  avg_aqi :: cell
  max_aqi :: cell
  std_aqi :: cell
  avg_iaq :: cell
  avg_temp :: cell
  avg_hum :: cell
  avg_pressure :: cell

record 'd daily_risk = "'d daily" +
  risk_level :: int

text \<open>The rows of one group of \<^verbatim>\<open>groupby(['device_id', 'date'])\<close>.\<close>

definition group_rows ::
  "('d, 'z) measurement_scheme list \<Rightarrow> 'd \<times> int \<Rightarrow> ('d, 'z) measurement_scheme list" where
  "group_rows df key = filter (\<lambda>r. (device_id r, date_of (measured_at r)) = key) df"

text \<open>Lines 174 to 183: one row per group, the groups in ascending order of their key.\<close>

definition daily_agg :: "('d::linorder, 'z) measurement_scheme list \<Rightarrow> 'd daily list" where
  "daily_agg df =
     map (\<lambda>key.
            let g = group_rows df key
            in \<lparr>daily_device_id = fst key, date = snd key,
                avg_aqi = agg_mean (map aqi_calculated g),
                max_aqi = agg_max (map aqi_calculated g),
                std_aqi = agg_std (map aqi_calculated g),
                avg_iaq = agg_mean (map iaq_score g),
                avg_temp = agg_mean (map temperature g),
                avg_hum = agg_mean (map humidity g),
                avg_pressure = agg_mean (map pressure_hpa g)\<rparr>)
         (sort (remdups (map (\<lambda>r. (device_id r, date_of (measured_at r))) df)))"

text \<open>A comparison with a missing value is false, as it is with NaN.\<close>

definition cell_less :: "cell \<Rightarrow> real \<Rightarrow> bool" where
  "cell_less c v = (case c of None \<Rightarrow> False | Some x \<Rightarrow> x < v)"

text \<open>Lines 186 to 194.\<close>

definition assign_risk :: "('d, 'z) daily_scheme \<Rightarrow> int" where
  "assign_risk row =
     (if cell_less (avg_aqi row) 50 then 0
      else if cell_less (avg_aqi row) 100 then 1
      else if cell_less (avg_aqi row) 150 then 2
      else 3)"

definition risk_feature_cols :: "string list" where
  "risk_feature_cols = [''avg_aqi'', ''max_aqi'', ''std_aqi'', ''avg_iaq'',
                        ''avg_temp'', ''avg_hum'', ''avg_pressure'']"

text \<open>Line 196: the column \<^verbatim>\<open>risk_level\<close> added to every row.\<close>

definition add_risk_level :: "'d daily \<Rightarrow> 'd daily_risk" where
  "add_risk_level row = daily.extend row (daily_risk.fields (assign_risk row))"

text \<open>
  \<^verbatim>\<open>prepare_health_risk_data(df)\<close>, lines 162 to 205. The features are read in the order
  of \<open>risk_feature_cols\<close>, missing cells filled with 0.
\<close>

definition prepare_health_risk_data ::
  "('d::linorder, 'z) measurement_scheme list \<Rightarrow> real list list \<times> int list \<times> string list" where
  "prepare_health_risk_data df =
     (let daily = map add_risk_level (daily_agg df);
          X = map (\<lambda>row. map (fillna 0)
                     [avg_aqi row, max_aqi row, std_aqi row, avg_iaq row,
                      avg_temp row, avg_hum row, avg_pressure row]) daily;
          y = map risk_level daily
      in (X, y, risk_feature_cols))"

text \<open>The step function of the label assignment, in the words of its description.\<close>

definition risk_step :: "real \<Rightarrow> int" where
  "risk_step a =
     (if a < 50 then 0
      else if 50 \<le> a \<and> a < 100 then 1
      else if 100 \<le> a \<and> a < 150 then 2
      else 3)"

section \<open>Notions used in the statements\<close>

text \<open>The filled values of the feature at position \<open>j\<close> of \<open>feature_cols\<close>, over all rows.\<close>

definition filled_column :: "('d, 'z) measurement_scheme list \<Rightarrow> nat \<Rightarrow> real list" where
  "filled_column df j = map (\<lambda>r. fillna 0 (column (feature_cols ! j) r)) df"

text \<open>
  The windows of one device as pairs of feature matrix and label vector, one per start
  offset; \<open>device_sequences\<close> appends exactly these.
\<close>

definition device_windows ::
  "real list list \<Rightarrow> int \<Rightarrow> int \<Rightarrow> (real list list \<times> real list) list" where
  "device_windows dd lookback forecast_horizon =
     map (\<lambda>i. (py_slice dd i (i + lookback),
               map (\<lambda>row. row ! 0)
                 (py_slice dd (i + lookback) (i + lookback + forecast_horizon))))
       (py_range (int (length dd) - lookback - forecast_horizon))"

section \<open>Sample data\<close>

definition reading :: "nat \<Rightarrow> int \<Rightarrow> real \<Rightarrow> nat measurement" where
  "reading dev t aqi =
     \<lparr>measured_at = t, device_id = dev, aqi_calculated = Some aqi, iaq_score = None,
      temperature = Some 20, humidity = Some 50, pressure_hpa = Some 1000,
      hour_of_day = Some 1, day_of_week = Some 2\<rparr>"

text \<open>Three hourly readings of one device, out of order.\<close>

definition three_readings :: "nat measurement list" where
  "three_readings = [reading 11 7200 40, reading 11 0 10, reading 11 3600 30]"

text \<open>Four readings of device 11 and one of device 12.\<close>

definition five_readings :: "nat measurement list" where
  "five_readings = [reading 11 10800 40, reading 11 3600 10, reading 11 7200 30,
                    reading 12 0 5, reading 11 14400 20]"

text \<open>Device 11 with two readings on day 0 and one on day 1, device 12 with one on day 0.\<close>

definition two_days :: "nat measurement list" where
  "two_days = [reading 11 0 40, reading 11 3600 80, reading 11 86400 150, reading 12 100 20]"

definition typical_exposure :: "string \<rightharpoonup> real" where
  "typical_exposure = [''avg_pm25'' \<mapsto> 35, ''peak_pm25'' \<mapsto> 50,
                       ''hours_unhealthy'' \<mapsto> 100, ''duration_days'' \<mapsto> 5]"

text \<open>The scaler and the parameter file that three_readings gives, computed by hand.\<close>

definition three_readings_scaler :: MinMaxScaler where
  "three_readings_scaler =
     \<lparr>data_min = [10, 0, 20, 50, 1000, 1, 2], data_max = [40, 0, 20, 50, 1000, 1, 2]\<rparr>"

definition three_readings_params :: json where
  "three_readings_params =
     JObj [(''min'', JArr [JNum 10, JNum 0, JNum 20, JNum 50, JNum 1000, JNum 1, JNum 2]),
           (''max'', JArr [JNum 40, JNum 0, JNum 20, JNum 50, JNum 1000, JNum 1, JNum 2]),
           (''feature_cols'', JArr [JStr ''aqi_calculated'', JStr ''iaq_score'',
              JStr ''temperature'', JStr ''humidity'', JStr ''pressure_hpa'',
              JStr ''hour_of_day'', JStr ''day_of_week''])]"

section \<open>Rounding and the scoring formulas\<close>

lemma round_half_even_of_int: "round_half_even (of_int n) = n"
  by (simp add: round_half_even_def)

lemma round_half_even_nonneg: "0 \<le> y \<Longrightarrow> 0 \<le> round_half_even y"
  by (simp add: round_half_even_def Let_def)

lemma round_half_even_le:
  assumes "y \<le> of_int n"
  shows "round_half_even y \<le> n"
proof (cases "\<lfloor>y\<rfloor> = n")
  case True
  then have "y = of_int n" using assms by linarith
  then show ?thesis by (simp add: round_half_even_of_int)
next
  case False
  moreover have "\<lfloor>y\<rfloor> \<le> n" using assms by (simp add: floor_le_iff) 
  ultimately have "\<lfloor>y\<rfloor> + 1 \<le> n" by simp
  then show ?thesis by (simp add: round_half_even_def Let_def)
qed

lemma round2_bounds:
  assumes "0 \<le> x" and "x \<le> 100"
  shows "0 \<le> round2 x \<and> round2 x \<le> 100"
proof -
  have "x * 100 \<le> of_int 10000" using assms by simp
  then have "round_half_even (x * 100) \<le> 10000" by (rule round_half_even_le)
  moreover have "0 \<le> round_half_even (x * 100)"
    using assms by (simp add: round_half_even_nonneg)
  ultimately show ?thesis by (simp add: round2_def)
qed

lemma round2_100: "round2 100 = 100"
  using round_half_even_of_int [of 10000] by (simp add: round2_def)

lemma calculate_disease_probabilities_present:
  assumes "exposure_data ''avg_pm25'' = Some pm25"
    and "exposure_data ''peak_pm25'' = Some peak"
    and "exposure_data ''hours_unhealthy'' = Some hours"
  shows "calculate_disease_probabilities exposure_data =
     Inr \<lparr>asthma_risk = round2 (min 100 (min 100 (pm25 / 35 * 50) * (1 + peak / 100 * (1 / 2)))),
          copd_risk = round2 (min 100 (pm25 / 50 * 40 + hours / 720 * 30)),
          cardiovascular_risk = round2 (min 100 (pm25 / 40 * 35 + peak / 150 * 40)),
          allergy_risk = round2 (min 100 (pm25 / 30 * 30))\<rparr>"
  using assms by (simp add: calculate_disease_probabilities_def getitem_def Let_def)

section \<open>The window loops\<close>

lemma fold_append_pairs:
  "fold (\<lambda>i (X, y). (X @ [f i], y @ [g i])) is (X, y) = (X @ map f is, y @ map g is)"
  by (induction "is" arbitrary: X y) simp_all

lemma device_sequences_eq:
  "device_sequences dd l h (X, y) =
     (X @ map fst (device_windows dd l h), y @ map snd (device_windows dd l h))"
  by (simp add: device_sequences_def device_windows_def fold_append_pairs comp_def)

lemma fold_device_sequences:
  "fold (\<lambda>dev Xy. device_sequences (dd dev) l h Xy) devs (X, y) =
     (X @ map fst (concat (map (\<lambda>dev. device_windows (dd dev) l h) devs)),
      y @ map snd (concat (map (\<lambda>dev. device_windows (dd dev) l h) devs)))"
  by (induction devs arbitrary: X y) (simp_all add: device_sequences_eq)

lemma create_sequences_eq:
  "create_sequences df l h =
     (map fst (concat (map (\<lambda>dev. device_windows (device_data df dev) l h) (unique (map fst df)))),
      map snd (concat (map (\<lambda>dev. device_windows (device_data df dev) l h) (unique (map fst df)))))"
  by (simp add: create_sequences_def fold_device_sequences)

lemma set_unique: "set (unique xs) = set xs"
  by (induction xs rule: unique.induct) auto

lemma py_slice_inside:
  assumes "0 \<le> i" and "0 \<le> n" and "i + n \<le> int (length xs)"
  shows "py_slice xs i (i + n) = take (nat n) (drop (nat i) xs)"
  using assms by (simp add: py_slice_def Let_def min_def)

lemma device_windows_empty:
  assumes "int (length dd) \<le> l + h"
  shows "device_windows dd l h = []"
  using assms by (simp add: device_windows_def py_range_def)

lemma device_windows_member:
  assumes "w \<in> set (device_windows dd l h)" and "0 \<le> l" and "0 \<le> h"
  shows "\<exists>i. i + nat l + nat h < length dd
           \<and> fst w = take (nat l) (drop i dd)
           \<and> snd w = map (\<lambda>row. row ! 0) (take (nat h) (drop (i + nat l) dd))"
proof -
  from assms(1) obtain k where k: "k < nat (int (length dd) - l - h)"
    and w: "w = (py_slice dd (int k) (int k + l),
                 map (\<lambda>row. row ! 0) (py_slice dd (int k + l) (int k + l + h)))"
    by (auto simp: device_windows_def py_range_def)
  from k assms(2,3) have b: "int k + l + h < int (length dd)" by linarith
  have 1: "py_slice dd (int k) (int k + l) = take (nat l) (drop (nat (int k)) dd)"
    using assms(2,3) b by (intro py_slice_inside) simp_all
  have 2: "py_slice dd (int k + l) (int k + l + h) = take (nat h) (drop (nat (int k + l)) dd)"
    using assms(2,3) b by (intro py_slice_inside) simp_all
  have 3: "nat (int k + l) = k + nat l" using assms(2) by (simp add: nat_add_distrib)
  have "k + nat l + nat h < length dd" using b assms(2,3) by linarith
  with w 1 2 3 show ?thesis by auto
qed

text \<open>
  A series of exactly \<open>lookback + forecast_horizon\<close> rows holds one full pair: the slices
  at start offset 0 lie inside it.
\<close>

lemma window_at_offset_zero_fits:
  assumes "0 \<le> lookback" and "0 \<le> forecast_horizon"
    and "int (length dd) = lookback + forecast_horizon"
  shows "length (py_slice dd 0 (0 + lookback)) = nat lookback"
    and "length (py_slice dd (0 + lookback) (0 + lookback + forecast_horizon)) = nat forecast_horizon"
proof -
  have "py_slice dd 0 (0 + lookback) = take (nat lookback) (drop (nat 0) dd)"
    using assms by (intro py_slice_inside) simp_all
  moreover have "py_slice dd (0 + lookback) (0 + lookback + forecast_horizon)
      = take (nat forecast_horizon) (drop (nat (0 + lookback)) dd)"
    using assms by (intro py_slice_inside) simp_all
  ultimately show "length (py_slice dd 0 (0 + lookback)) = nat lookback"
    and "length (py_slice dd (0 + lookback) (0 + lookback + forecast_horizon)) = nat forecast_horizon"
    using assms by simp_all
qed

section \<open>The scaled frame\<close>

lemma length_feature_cols: "length feature_cols = 7"
  by (simp add: feature_cols_def)

lemma filled_matrix_column:
  assumes "j < length feature_cols"
  shows "map (\<lambda>row. row ! j) (filled_matrix df) = filled_column df j"
  using assms by (simp add: filled_matrix_def filled_column_def)

lemma set_filled_column_sort:
  "set (filled_column (sort_key f df) j) = set (filled_column df j)"
  by (simp add: filled_column_def)

lemma fit_filled:
  assumes "df \<noteq> []"
  shows "fit (filled_matrix df) =
     Inr \<lparr>data_min = map (\<lambda>j. Min (set (filled_column df j))) [0..<length feature_cols],
          data_max = map (\<lambda>j. Max (set (filled_column df j))) [0..<length feature_cols]\<rparr>"
proof -
  have ne: "filled_matrix df \<noteq> []" using assms by (simp add: filled_matrix_def)
  have hd: "length (hd (filled_matrix df)) = length feature_cols"
    using assms by (cases df) (simp_all add: filled_matrix_def)
  have mn: "map (\<lambda>j. Min (set (map (\<lambda>row. row ! j) (filled_matrix df)))) [0..<length feature_cols]
      = map (\<lambda>j. Min (set (filled_column df j))) [0..<length feature_cols]"
    by (rule map_cong) (simp_all only: filled_matrix_column atLeastLessThan_iff set_upt)
  have mx: "map (\<lambda>j. Max (set (map (\<lambda>row. row ! j) (filled_matrix df)))) [0..<length feature_cols]
      = map (\<lambda>j. Max (set (filled_column df j))) [0..<length feature_cols]"
    by (rule map_cong) (simp_all only: filled_matrix_column atLeastLessThan_iff set_upt)
  show ?thesis
    unfolding fit_def hd mn mx using ne by simp
qed

lemma scale_features_eq:
  "scale_features df =
     (if df = [] then Inl ValueError
      else let sdf = sort_key (\<lambda>r. (device_id r, measured_at r)) df;
               scaler = \<lparr>data_min = map (\<lambda>j. Min (set (filled_column df j))) [0..<length feature_cols],
                         data_max = map (\<lambda>j. Max (set (filled_column df j))) [0..<length feature_cols]\<rparr>
           in Inr (scaler, zip (map device_id sdf) (transform scaler (filled_matrix sdf))))"
proof (cases "df = []")
  case True
  then show ?thesis by (simp add: scale_features_def fit_transform_def fit_def filled_matrix_def)
next
  case False
  then have "sort_key (\<lambda>r. (device_id r, measured_at r)) df \<noteq> []"
    by (metis length_sort length_0_conv)
  from fit_filled [OF this] False show ?thesis
    by (simp add: scale_features_def fit_transform_def Let_def set_filled_column_sort)
qed

lemma transform_row:
  assumes "k < length M"
  shows "transform scaler M ! k =
     map (\<lambda>j. scale_value (data_min scaler ! j) (data_max scaler ! j) (M ! k ! j)) [0..<length (M ! k)]"
  using assms by (simp add: transform_def)

lemma length_transform: "length (transform scaler M) = length M"
  by (simp add: transform_def)

lemma transform_row_length:
  "row \<in> set (transform scaler M) \<Longrightarrow> \<exists>r \<in> set M. length row = length r"
  by (auto simp: transform_def)

lemma filled_matrix_row_length: "row \<in> set (filled_matrix df) \<Longrightarrow> length row = length feature_cols"
  by (auto simp: filled_matrix_def)

lemma filled_matrix_nth:
  assumes "k < length df" and "j < length feature_cols"
  shows "filled_matrix df ! k ! j = fillna 0 (column (feature_cols ! j) (df ! k))"
    and "length (filled_matrix df ! k) = length feature_cols"
  using assms by (simp_all add: filled_matrix_def)

lemma scale_features_rows:
  assumes "scale_features df = Inr (scaler, ndf)"
  shows "length ndf = length df"
    and "map fst ndf = map device_id (sort_key (\<lambda>r. (device_id r, measured_at r)) df)"
    and "\<forall>r \<in> set ndf. length (snd r) = length feature_cols"
proof -
  let ?sdf = "sort_key (\<lambda>r. (device_id r, measured_at r)) df"
  from assms have ne: "df \<noteq> []" by (auto simp: scale_features_eq split: if_splits)
  from assms ne have ndf: "ndf = zip (map device_id ?sdf) (transform scaler (filled_matrix ?sdf))"
    by (auto simp: scale_features_eq Let_def)
  have len: "length (transform scaler (filled_matrix ?sdf)) = length (map device_id ?sdf)"
    by (simp add: length_transform filled_matrix_def)
  show "length ndf = length df" by (simp add: ndf length_transform filled_matrix_def)
  show "map fst ndf = map device_id ?sdf" unfolding ndf using len by simp
  show "\<forall>r \<in> set ndf. length (snd r) = length feature_cols"
  proof
    fix r assume "r \<in> set ndf"
    then have "(fst r, snd r) \<in> set (zip (map device_id ?sdf) (transform scaler (filled_matrix ?sdf)))"
      unfolding ndf by simp
    then have "snd r \<in> set (transform scaler (filled_matrix ?sdf))"
      by (rule set_zip_rightD)
    then show "length (snd r) = length feature_cols"
      by (auto dest!: transform_row_length simp: filled_matrix_row_length)
  qed
qed

lemma device_data_rows:
  "row \<in> set (device_data ndf dev) \<Longrightarrow> \<exists>r \<in> set ndf. fst r = dev \<and> snd r = row"
  by (auto simp: device_data_def)

lemma device_data_length:
  assumes "scale_features df = Inr (scaler, ndf)"
  shows "length (device_data ndf dev) = length (filter (\<lambda>r. device_id r = dev) df)"
proof -
  let ?sdf = "sort_key (\<lambda>r. (device_id r, measured_at r)) df"
  have "length (device_data ndf dev) = length (filter (\<lambda>d. d = dev) (map fst ndf))"
    by (simp add: device_data_def filter_map comp_def)
  also have "\<dots> = length (filter (\<lambda>r. device_id r = dev) ?sdf)"
    by (simp add: scale_features_rows(2) [OF assms] filter_map comp_def)
  also have "\<dots> = length (filter (\<lambda>r. device_id r = dev) df)"
    by (simp add: filter_sort)
  finally show ?thesis .
qed

section \<open>Daily aggregation\<close>

lemma risk_step_mono: "a \<le> b \<Longrightarrow> risk_step a \<le> risk_step b"
  by (simp add: risk_step_def)

lemma assign_risk_Some: "avg_aqi row = Some a \<Longrightarrow> assign_risk row = risk_step a"
  by (simp add: assign_risk_def cell_less_def risk_step_def)

lemma dropna_all_present:
  assumes "\<forall>c \<in> set cs. c \<noteq> None"
  shows "dropna cs = map the cs"
  using assms by (simp add: dropna_def)

lemma daily_agg_nth:
  assumes "k < length (daily_agg df)"
  shows "\<exists>key. key \<in> set (map (\<lambda>r. (device_id r, date_of (measured_at r))) df)
      \<and> daily_device_id (daily_agg df ! k) = fst key \<and> date (daily_agg df ! k) = snd key
      \<and> avg_aqi (daily_agg df ! k) = agg_mean (map aqi_calculated (group_rows df key))
      \<and> std_aqi (daily_agg df ! k) = agg_std (map aqi_calculated (group_rows df key))"
proof -
  let ?keys = "sort (remdups (map (\<lambda>r. (device_id r, date_of (measured_at r))) df))"
  from assms have k: "k < length ?keys" by (simp add: daily_agg_def)
  then have "?keys ! k \<in> set ?keys" by (rule nth_mem)
  then have "?keys ! k \<in> set (map (\<lambda>r. (device_id r, date_of (measured_at r))) df)" by simp
  moreover have "daily_agg df ! k =
      (let g = group_rows df (?keys ! k)
       in \<lparr>daily_device_id = fst (?keys ! k), date = snd (?keys ! k),
           avg_aqi = agg_mean (map aqi_calculated g),
           max_aqi = agg_max (map aqi_calculated g),
           std_aqi = agg_std (map aqi_calculated g),
           avg_iaq = agg_mean (map iaq_score g),
           avg_temp = agg_mean (map temperature g),
           avg_hum = agg_mean (map humidity g),
           avg_pressure = agg_mean (map pressure_hpa g)\<rparr>)"
    unfolding daily_agg_def using k by (simp only: nth_map)
  ultimately show ?thesis by (auto simp: Let_def)
qed

lemma group_rows_nonempty:
  assumes "key \<in> set (map (\<lambda>r. (device_id r, date_of (measured_at r))) df)"
  shows "group_rows df key \<noteq> []"
  using assms by (auto simp: group_rows_def filter_empty_conv)

lemma add_risk_level_fields:
  "risk_level (add_risk_level row) = assign_risk row"
  "avg_aqi (add_risk_level row) = avg_aqi row"
  "std_aqi (add_risk_level row) = std_aqi row"
  by (simp_all add: add_risk_level_def daily.defs daily_risk.defs)

lemma prepare_health_risk_data_nth:
  assumes "prepare_health_risk_data df = (X, y, cols)" and "k < length (daily_agg df)"
  shows "y ! k = assign_risk (daily_agg df ! k)"
    and "X ! k ! 0 = fillna 0 (avg_aqi (daily_agg df ! k))"
    and "X ! k ! 2 = fillna 0 (std_aqi (daily_agg df ! k))"
    and "length X = length (daily_agg df)" and "length y = length (daily_agg df)"
    and "cols = risk_feature_cols"
  using assms by (auto simp: prepare_health_risk_data_def Let_def add_risk_level_fields)

section \<open>The pipeline on the sample data\<close>

lemmas eval_defs = prepare_lstm_data_def scale_features_def fit_transform_def fit_def transform_def
  filled_matrix_def feature_cols_def column_def fillna_def scale_value_def scaler_params_def
  create_sequences_def device_sequences_def device_data_def py_range_def py_slice_def
  reading_def three_readings_def five_readings_def two_days_def Let_def

lemma three_readings_prepared:
  "prepare_lstm_data Map.empty three_readings 2 1 =
     Inr ([], [], three_readings_scaler,
          [''models/scaler_params.json'' \<mapsto> three_readings_params])"
  by (simp add: eval_defs three_readings_scaler_def three_readings_params_def)

lemma five_readings_prepared:
  "prepare_lstm_data Map.empty five_readings 2 1 =
     Inr ([ [ [1 / 7, 0, 0, 0, 0, 0, 0], [5 / 7, 0, 0, 0, 0, 0, 0] ] ], [ [1] ],
       \<lparr>data_min = [5, 0, 20, 50, 1000, 1, 2], data_max = [40, 0, 20, 50, 1000, 1, 2]\<rparr>,
       [''models/scaler_params.json'' \<mapsto>
          JObj [(''min'', JArr [JNum 5, JNum 0, JNum 20, JNum 50, JNum 1000, JNum 1, JNum 2]),
                (''max'', JArr [JNum 40, JNum 0, JNum 20, JNum 50, JNum 1000, JNum 1, JNum 2]),
                (''feature_cols'', JArr [JStr ''aqi_calculated'', JStr ''iaq_score'',
                   JStr ''temperature'', JStr ''humidity'', JStr ''pressure_hpa'',
                   JStr ''hour_of_day'', JStr ''day_of_week''])] ])"
  by (simp add: eval_defs)

lemma two_days_keys:
  "sort (remdups (map (\<lambda>r. (device_id r, date_of (measured_at r))) two_days)) =
     [(11, 0), (11, 1), (12, 0)]"
  by (simp add: two_days_def reading_def date_of_def)

lemma two_days_groups:
  "group_rows two_days (11, 0) = [reading 11 0 40, reading 11 3600 80]"
  "group_rows two_days (12, 0) = [reading 12 100 20]"
  by (simp_all add: group_rows_def two_days_def reading_def date_of_def)

lemma two_days_daily_keys:
  "length (daily_agg two_days) = 3"
  "daily_device_id (daily_agg two_days ! 0) = 11" "date (daily_agg two_days ! 0) = 0"
  "daily_device_id (daily_agg two_days ! 2) = 12" "date (daily_agg two_days ! 2) = 0"
  by (simp_all add: daily_agg_def two_days_keys Let_def)

section \<open>Properties of the windowing\<close>

text \<open>
  C1, as the code behaves. A frame in which no device has more than
  \<open>lookback + forecast_horizon\<close> rows yields no window at all: the loop runs over
  \<^verbatim>\<open>range(len(device_data) - lookback - forecast_horizon)\<close>, which is empty for a series of
  exactly \<open>lookback + forecast_horizon\<close> rows as well as for a shorter one. The full pair
  that such a series holds (\<open>window_at_offset_zero_fits\<close>) is not produced; the first
  length with a window is \<open>lookback + forecast_horizon + 1\<close>.
\<close>

theorem short_series_yields_no_window:
  assumes "df \<noteq> []"
    and "\<forall>dev \<in> device_id ` set df.
           int (length (filter (\<lambda>r. device_id r = dev) df)) \<le> lookback + forecast_horizon"
  shows "\<exists>scaler files'.
           prepare_lstm_data files df lookback forecast_horizon = Inr ([], [], scaler, files')"
proof -
  from assms(1) obtain scaler ndf where n: "scale_features df = Inr (scaler, ndf)"
    by (auto simp: scale_features_eq Let_def)
  have "device_windows (device_data ndf dev) lookback forecast_horizon = []"
    if "dev \<in> set (unique (map fst ndf))" for dev
  proof -
    from that have "dev \<in> device_id ` set df"
      by (simp add: set_unique scale_features_rows(2) [OF n])
    with assms(2) show ?thesis
      by (intro device_windows_empty) (force simp: device_data_length [OF n])
  qed
  then have "create_sequences ndf lookback forecast_horizon = ([], [])"
    by (simp add: create_sequences_eq)
  with n show ?thesis by (simp add: prepare_lstm_data_def)
qed

theorem short_series_yields_no_window_witness:
  "three_readings \<noteq> []
   \<and> int (length (filter (\<lambda>r. device_id r = 11) three_readings)) = 2 + 1
   \<and> (\<exists>scaler files'.
         prepare_lstm_data Map.empty three_readings 2 1 = Inr ([], [], scaler, files'))"
proof -
  have h1: "three_readings \<noteq> []"
    by (simp add: three_readings_def)
  have h2: "\<forall>dev \<in> device_id ` set three_readings.
              int (length (filter (\<lambda>r. device_id r = dev) three_readings)) \<le> 2 + 1"
    by (simp add: three_readings_def reading_def)
  have "int (length (filter (\<lambda>r. device_id r = 11) three_readings)) = 2 + 1"
    by (simp add: three_readings_def reading_def)
  with h1 short_series_yields_no_window [OF h1 h2, of Map.empty] show ?thesis
    by simp
qed

text \<open>
  C2. Every window that \<^verbatim>\<open>prepare_lstm_data\<close> returns, for a lookback and a horizon that
  are not negative, has a feature matrix of exactly \<open>lookback\<close> rows, each with all the
  feature columns, and a label vector of exactly \<open>forecast_horizon\<close> values; \<open>X\<close> and \<open>y\<close>
  have the same number of entries. The window is cut from the series of one single device
  of the frame: its feature rows are \<open>lookback\<close> consecutive rows of that series and its
  labels are the first column of the \<open>forecast_horizon\<close> rows that follow them.
\<close>

theorem windows_shape_and_provenance:
  assumes "prepare_lstm_data files df lookback forecast_horizon = Inr (X, y, scaler, files')"
    and "0 \<le> lookback" and "0 \<le> forecast_horizon" and "k < length X"
  shows "length y = length X
    \<and> int (length (X ! k)) = lookback
    \<and> (\<forall>row \<in> set (X ! k). length row = length feature_cols)
    \<and> int (length (y ! k)) = forecast_horizon
    \<and> feature_cols ! 0 = ''aqi_calculated''
    \<and> (\<exists>ndf dev i. scale_features df = Inr (scaler, ndf) \<and> dev \<in> device_id ` set df
         \<and> length (device_data ndf dev) = length (filter (\<lambda>r. device_id r = dev) df)
         \<and> i + nat lookback + nat forecast_horizon < length (device_data ndf dev)
         \<and> X ! k = take (nat lookback) (drop i (device_data ndf dev))
         \<and> y ! k = map (\<lambda>row. row ! 0)
               (take (nat forecast_horizon) (drop (i + nat lookback) (device_data ndf dev))))"
proof -
  from assms(1) obtain ndf where n: "scale_features df = Inr (scaler, ndf)"
    and c: "create_sequences ndf lookback forecast_horizon = (X, y)"
    by (auto simp: prepare_lstm_data_def Let_def split: sum.splits prod.splits)
  define ws where "ws = concat (map (\<lambda>dev. device_windows (device_data ndf dev) lookback forecast_horizon)
                                   (unique (map fst ndf)))"
  from c have X: "X = map fst ws" and y: "y = map snd ws"
    by (simp_all add: create_sequences_eq ws_def)
  from assms(4) X have k: "k < length ws" by simp
  then have "ws ! k \<in> set ws" by simp
  then obtain dev where dev: "dev \<in> set (map fst ndf)"
    and w: "ws ! k \<in> set (device_windows (device_data ndf dev) lookback forecast_horizon)"
    by (auto simp: ws_def set_unique)
  from device_windows_member [OF w assms(2,3)] obtain i where
    i: "i + nat lookback + nat forecast_horizon < length (device_data ndf dev)"
    and f: "fst (ws ! k) = take (nat lookback) (drop i (device_data ndf dev))"
    and s: "snd (ws ! k) = map (\<lambda>row. row ! 0)
               (take (nat forecast_horizon) (drop (i + nat lookback) (device_data ndf dev)))"
    by blast
  have Xk: "X ! k = fst (ws ! k)" and yk: "y ! k = snd (ws ! k)"
    using k by (simp_all add: X y)
  have "dev \<in> device_id ` set df"
    using dev scale_features_rows(2) [OF n] by simp
  have "int (length (X ! k)) = lookback"
    using i assms(2) by (simp add: Xk f)
  moreover have "int (length (y ! k)) = forecast_horizon"
    using i assms(3) by (simp add: yk s)
  moreover have "\<forall>row \<in> set (X ! k). length row = length feature_cols"
  proof
    fix row assume "row \<in> set (X ! k)"
    then have "row \<in> set (device_data ndf dev)"
      unfolding Xk f by (meson in_set_dropD in_set_takeD)
    then show "length row = length feature_cols"
      using scale_features_rows(3) [OF n] by (auto dest!: device_data_rows)
  qed
  moreover have "length y = length X" by (simp add: X y)
  moreover have "feature_cols ! 0 = ''aqi_calculated''" by (simp add: feature_cols_def)
  moreover have "\<exists>ndf dev i. scale_features df = Inr (scaler, ndf) \<and> dev \<in> device_id ` set df
         \<and> length (device_data ndf dev) = length (filter (\<lambda>r. device_id r = dev) df)
         \<and> i + nat lookback + nat forecast_horizon < length (device_data ndf dev)
         \<and> X ! k = take (nat lookback) (drop i (device_data ndf dev))
         \<and> y ! k = map (\<lambda>row. row ! 0)
               (take (nat forecast_horizon) (drop (i + nat lookback) (device_data ndf dev)))"
    using n \<open>dev \<in> device_id ` set df\<close> device_data_length [OF n, of dev] i f s
    unfolding Xk yk by (intro exI [of _ ndf] exI [of _ dev] exI [of _ i]) simp
  ultimately show ?thesis by simp
qed

theorem windows_shape_and_provenance_witness:
  "\<exists>X y scaler files'.
      prepare_lstm_data Map.empty five_readings 2 1 = Inr (X, y, scaler, files')
    \<and> 0 < length X \<and> length y = length X
    \<and> int (length (X ! 0)) = 2 \<and> int (length (y ! 0)) = 1"
proof -
  let ?X = "[ [ [1 / 7, 0, 0, 0, 0, 0, 0], [5 / 7, 0, 0, 0, 0, 0, 0] ] ] :: real list list list"
  have k: "0 < length ?X" by simp
  from windows_shape_and_provenance [OF five_readings_prepared _ _ k]
  have "length [ [1::real] ] = length ?X \<and> int (length (?X ! 0)) = 2
      \<and> int (length ([ [1::real] ] ! 0)) = 1"
    by simp
  with five_readings_prepared show ?thesis by blast
qed

section \<open>Properties of the risk labels and the daily statistics\<close>

text \<open>
  C3. In the output of \<^verbatim>\<open>prepare_health_risk_data\<close> the label of every daily aggregate
  is the step function \<open>risk_step\<close> of its \<^verbatim>\<open>avg_aqi\<close> and of nothing else: below 50 it is
  0, from 50 below 100 it is 1, from 100 below 150 it is 2, from 150 on it is 3. On
  measurements whose target index is never missing, \<^verbatim>\<open>avg_aqi\<close> is the mean of the target
  index over the measurements of that device and day. The step function never decreases,
  and the boundary values 50, 100 and 150 map to 1, 2 and 3.
\<close>

theorem risk_level_is_step_of_mean:
  assumes "prepare_health_risk_data df = (X, y, cols)"
    and "k < length (daily_agg df)"
  shows "(\<forall>a. avg_aqi (daily_agg df ! k) = Some a \<longrightarrow> y ! k = risk_step a)
      \<and> ((\<forall>r \<in> set df. aqi_calculated r \<noteq> None) \<longrightarrow>
           (let g = group_rows df (daily_device_id (daily_agg df ! k), date (daily_agg df ! k))
            in g \<noteq> []
             \<and> avg_aqi (daily_agg df ! k)
                 = Some (sum_list (map (the \<circ> aqi_calculated) g) / real (length g))))
      \<and> (\<forall>a b. a \<le> b \<longrightarrow> risk_step a \<le> risk_step b)
      \<and> risk_step 50 = 1 \<and> risk_step 100 = 2 \<and> risk_step 150 = 3"
proof -
  from daily_agg_nth [OF assms(2)] obtain key where
    key: "key \<in> set (map (\<lambda>r. (device_id r, date_of (measured_at r))) df)"
    and dk: "daily_device_id (daily_agg df ! k) = fst key" "date (daily_agg df ! k) = snd key"
    and avg: "avg_aqi (daily_agg df ! k) = agg_mean (map aqi_calculated (group_rows df key))"
    by blast
  let ?g = "group_rows df key"
  have label: "\<forall>a. avg_aqi (daily_agg df ! k) = Some a \<longrightarrow> y ! k = risk_step a"
    using prepare_health_risk_data_nth(1) [OF assms] by (simp add: assign_risk_Some)
  have ne: "?g \<noteq> []" by (rule group_rows_nonempty [OF key])
  have mean: "avg_aqi (daily_agg df ! k) =
      Some (sum_list (map (the \<circ> aqi_calculated) ?g) / real (length ?g))"
    if "\<forall>r \<in> set df. aqi_calculated r \<noteq> None"
  proof -
    have "\<forall>c \<in> set (map aqi_calculated ?g). c \<noteq> None"
      using that by (auto simp: group_rows_def)
    then have "dropna (map aqi_calculated ?g) = map (the \<circ> aqi_calculated) ?g"
      by (simp add: dropna_all_present)
    then show ?thesis
      using ne by (simp add: avg agg_mean_def Let_def)
  qed
  have "risk_step 50 = 1" "risk_step 100 = 2" "risk_step 150 = 3"
    by (simp_all add: risk_step_def)
  moreover have "(daily_device_id (daily_agg df ! k), date (daily_agg df ! k)) = key"
    by (simp add: dk)
  ultimately show ?thesis
    using label ne mean risk_step_mono by (simp add: Let_def)
qed

theorem risk_level_is_step_of_mean_witness:
  "0 < length (daily_agg two_days)
   \<and> avg_aqi (daily_agg two_days ! 0) = Some ((40 + 80) / 2)
   \<and> fst (snd (prepare_health_risk_data two_days)) ! 0 = risk_step ((40 + 80) / 2)
   \<and> risk_step ((40 + 80) / 2) = 1"
proof -
  have h1: "prepare_health_risk_data two_days =
      (fst (prepare_health_risk_data two_days),
       fst (snd (prepare_health_risk_data two_days)),
       snd (snd (prepare_health_risk_data two_days)))"
    by simp
  have h2: "0 < length (daily_agg two_days)"
    by (simp add: two_days_daily_keys)
  have h3: "\<forall>r \<in> set two_days. aqi_calculated r \<noteq> None"
    by (simp add: two_days_def reading_def)
  note t = risk_level_is_step_of_mean [OF h1 h2]
  from t h3 have "avg_aqi (daily_agg two_days ! 0) =
      Some (sum_list (map (the \<circ> aqi_calculated) (group_rows two_days (11, 0)))
            / real (length (group_rows two_days (11, 0))))"
    by (simp add: two_days_daily_keys Let_def)
  then have a: "avg_aqi (daily_agg two_days ! 0) = Some ((40 + 80) / 2)"
    by (simp add: two_days_groups reading_def)
  with t have "fst (snd (prepare_health_risk_data two_days)) ! 0 = risk_step ((40 + 80) / 2)"
    by blast
  moreover have "risk_step ((40 + 80) / 2) = 1"
    by (simp add: risk_step_def)
  ultimately show ?thesis using h2 a by simp
qed

text \<open>
  C8. For a device and day with exactly one measurement, the standard deviation of the
  target index is missing in the aggregate and is 0 in the feature matrix that
  \<^verbatim>\<open>prepare_health_risk_data\<close> returns, at the position of \<^verbatim>\<open>std_aqi\<close>: the output holds
  0, not a missing value.
\<close>

theorem single_measurement_std_zero:
  assumes "prepare_health_risk_data df = (X, y, cols)"
    and "k < length (daily_agg df)"
    and "length (group_rows df (daily_device_id (daily_agg df ! k), date (daily_agg df ! k))) = 1"
  shows "std_aqi (daily_agg df ! k) = None \<and> X ! k ! 2 = 0 \<and> cols ! 2 = ''std_aqi''"
proof -
  from daily_agg_nth [OF assms(2)] obtain key where
    dk: "daily_device_id (daily_agg df ! k) = fst key" "date (daily_agg df ! k) = snd key"
    and sd: "std_aqi (daily_agg df ! k) = agg_std (map aqi_calculated (group_rows df key))"
    by blast
  from assms(3) dk have one: "length (group_rows df key) = 1" by simp
  have "length (dropna (map aqi_calculated (group_rows df key))) \<le> length (group_rows df key)"
    unfolding dropna_def length_map by (rule order_trans [OF length_filter_le]) simp
  with one have "length (dropna (map aqi_calculated (group_rows df key))) < 2" by simp
  then have none: "std_aqi (daily_agg df ! k) = None"
    by (simp add: sd agg_std_def Let_def)
  then have "X ! k ! 2 = 0"
    using prepare_health_risk_data_nth(3) [OF assms(1,2)] by (simp add: fillna_def)
  moreover have "cols ! 2 = ''std_aqi''"
    using prepare_health_risk_data_nth(6) [OF assms(1,2)] by (simp add: risk_feature_cols_def)
  ultimately show ?thesis using none by simp
qed

theorem single_measurement_std_zero_witness:
  "length (group_rows two_days (12, 0)) = 1
   \<and> std_aqi (daily_agg two_days ! 2) = None
   \<and> fst (prepare_health_risk_data two_days) ! 2 ! 2 = 0"
proof -
  have h1: "prepare_health_risk_data two_days =
      (fst (prepare_health_risk_data two_days),
       fst (snd (prepare_health_risk_data two_days)),
       snd (snd (prepare_health_risk_data two_days)))"
    by simp
  have h2: "2 < length (daily_agg two_days)"
    by (simp add: two_days_daily_keys)
  have g: "length (group_rows two_days (12, 0)) = 1"
    by (simp add: two_days_groups)
  then have h3: "length (group_rows two_days
      (daily_device_id (daily_agg two_days ! 2), date (daily_agg two_days ! 2))) = 1"
    by (simp add: two_days_daily_keys)
  from single_measurement_std_zero [OF h1 h2 h3] g show ?thesis by simp
qed

section \<open>Properties of the exposure scores\<close>

text \<open>
  C4. On the input with \<^verbatim>\<open>avg_pm25\<close> 35, \<^verbatim>\<open>peak_pm25\<close> 50, \<^verbatim>\<open>hours_unhealthy\<close> 100 and
  \<^verbatim>\<open>duration_days\<close> 5 the function returns the asthma risk 62.5, the COPD risk 32.17, the
  cardiovascular risk 43.96 and the allergy risk 35.
\<close>

theorem typical_exposure_scores:
  "calculate_disease_probabilities typical_exposure =
     Inr \<lparr>asthma_risk = 62.5, copd_risk = 32.17, cardiovascular_risk = 43.96,
          allergy_risk = 35\<rparr>"
  by (simp add: typical_exposure_def calculate_disease_probabilities_def getitem_def
        round2_def round_half_even_def Let_def)

text \<open>
  C5. When the average level, the peak level and the unhealthy hours are present and not
  negative, the function returns a score set and each of its four scores lies between 0
  and 100, both included. From an average level of 125 on, and so at 10000, every one of
  the four formulas is clamped to 100.
\<close>

theorem scores_in_range:
  assumes "exposure_data ''avg_pm25'' = Some pm25"
    and "exposure_data ''peak_pm25'' = Some peak"
    and "exposure_data ''hours_unhealthy'' = Some hours"
    and "0 \<le> pm25" and "0 \<le> peak" and "0 \<le> hours"
  shows "\<exists>r. calculate_disease_probabilities exposure_data = Inr r
      \<and> 0 \<le> asthma_risk r \<and> asthma_risk r \<le> 100
      \<and> 0 \<le> copd_risk r \<and> copd_risk r \<le> 100
      \<and> 0 \<le> cardiovascular_risk r \<and> cardiovascular_risk r \<le> 100
      \<and> 0 \<le> allergy_risk r \<and> allergy_risk r \<le> 100
      \<and> (125 \<le> pm25 \<longrightarrow> asthma_risk r = 100 \<and> copd_risk r = 100
            \<and> cardiovascular_risk r = 100 \<and> allergy_risk r = 100)"
proof -
  let ?a = "min 100 (min 100 (pm25 / 35 * 50) * (1 + peak / 100 * (1 / 2)))"
  let ?c = "min 100 (pm25 / 50 * 40 + hours / 720 * 30)"
  let ?v = "min 100 (pm25 / 40 * 35 + peak / 150 * 40)"
  let ?l = "min 100 (pm25 / 30 * 30)"
  have a: "0 \<le> ?a" "?a \<le> 100" using assms(4,5) by simp_all
  have c: "0 \<le> ?c" "?c \<le> 100" using assms(4,6) by simp_all
  have v: "0 \<le> ?v" "?v \<le> 100" using assms(4,5) by simp_all
  have l: "0 \<le> ?l" "?l \<le> 100" using assms(4) by simp_all
  have big: "?a = 100 \<and> ?c = 100 \<and> ?v = 100 \<and> ?l = 100" if "125 \<le> pm25"
  proof -
    have b: "min 100 (pm25 / 35 * 50) = 100" using that by simp
    have "100 * 1 \<le> 100 * (1 + peak / 100 * (1 / 2))"
      using assms(5) by (intro mult_left_mono) simp_all
    then have "?a = 100" unfolding b by simp
    moreover have "?c = 100" using that assms(6) by simp
    moreover have "?v = 100" using that assms(5) by simp
    moreover have "?l = 100" using that by simp
    ultimately show ?thesis by simp
  qed
  show ?thesis
    unfolding calculate_disease_probabilities_present [OF assms(1,2,3)]
    using round2_bounds [OF a] round2_bounds [OF c] round2_bounds [OF v] round2_bounds [OF l]
      big round2_100
    by auto
qed

theorem scores_in_range_witness:
  "\<exists>r. calculate_disease_probabilities
          [''avg_pm25'' \<mapsto> 10000, ''peak_pm25'' \<mapsto> 50, ''hours_unhealthy'' \<mapsto> 100] = Inr r
      \<and> asthma_risk r = 100 \<and> copd_risk r = 100
      \<and> cardiovascular_risk r = 100 \<and> allergy_risk r = 100"
proof -
  let ?e = "[''avg_pm25'' \<mapsto> 10000, ''peak_pm25'' \<mapsto> 50, ''hours_unhealthy'' \<mapsto> 100]
              :: string \<rightharpoonup> real"
  have "?e ''avg_pm25'' = Some 10000" "?e ''peak_pm25'' = Some 50"
    "?e ''hours_unhealthy'' = Some 100" "(0::real) \<le> 10000" "(0::real) \<le> 50" "(0::real) \<le> 100"
    by simp_all
  from scores_in_range [OF this] obtain r where
    "calculate_disease_probabilities ?e = Inr r"
    and "125 \<le> (10000::real) \<longrightarrow> asthma_risk r = 100 \<and> copd_risk r = 100
            \<and> cardiovascular_risk r = 100 \<and> allergy_risk r = 100"
    by blast
  then show ?thesis by (intro exI [of _ r]) simp
qed

text \<open>
  C6, as stated, fails: with \<^verbatim>\<open>hours_unhealthy\<close> at -100 the function returns a score
  set. Its COPD risk is 23.83, computed from the negative value itself; with the hours at
  0 it is 28.
\<close>

theorem negative_hours_counterexample:
  "calculate_disease_probabilities
     [''avg_pm25'' \<mapsto> 35, ''peak_pm25'' \<mapsto> 50, ''hours_unhealthy'' \<mapsto> - 100,
      ''duration_days'' \<mapsto> 5] =
     Inr \<lparr>asthma_risk = 62.5, copd_risk = 23.83, cardiovascular_risk = 43.96,
          allergy_risk = 35\<rparr>
   \<and> calculate_disease_probabilities
     [''avg_pm25'' \<mapsto> 35, ''peak_pm25'' \<mapsto> 50, ''hours_unhealthy'' \<mapsto> 0,
      ''duration_days'' \<mapsto> 5] =
     Inr \<lparr>asthma_risk = 62.5, copd_risk = 28, cardiovascular_risk = 43.96,
          allergy_risk = 35\<rparr>"
  by (simp add: calculate_disease_probabilities_def getitem_def round2_def
        round_half_even_def Let_def)

text \<open>
  C6, amended. The function does not validate its input. When the three exposure values
  are present and one of them is negative, it returns the score set of the four formulas
  with the negative value entering them as it is: nothing is rejected and nothing is
  replaced by zero.
\<close>

theorem negative_inputs_are_scored:
  assumes "exposure_data ''avg_pm25'' = Some pm25"
    and "exposure_data ''peak_pm25'' = Some peak"
    and "exposure_data ''hours_unhealthy'' = Some hours"
    and "pm25 < 0 \<or> peak < 0 \<or> hours < 0"
  shows "calculate_disease_probabilities exposure_data =
     Inr \<lparr>asthma_risk = round2 (min 100 (min 100 (pm25 / 35 * 50) * (1 + peak / 100 * (1 / 2)))),
          copd_risk = round2 (min 100 (pm25 / 50 * 40 + hours / 720 * 30)),
          cardiovascular_risk = round2 (min 100 (pm25 / 40 * 35 + peak / 150 * 40)),
          allergy_risk = round2 (min 100 (pm25 / 30 * 30))\<rparr>"
  using assms(1,2,3) by (rule calculate_disease_probabilities_present)

theorem negative_inputs_are_scored_witness:
  "calculate_disease_probabilities
     [''avg_pm25'' \<mapsto> 35, ''peak_pm25'' \<mapsto> 50, ''hours_unhealthy'' \<mapsto> - 720] =
     Inr \<lparr>asthma_risk = 62.5, copd_risk = - 2, cardiovascular_risk = 43.96,
          allergy_risk = 35\<rparr>"
proof -
  let ?e = "[''avg_pm25'' \<mapsto> 35, ''peak_pm25'' \<mapsto> 50, ''hours_unhealthy'' \<mapsto> - 720]
              :: string \<rightharpoonup> real"
  have h: "?e ''avg_pm25'' = Some 35" "?e ''peak_pm25'' = Some 50"
    "?e ''hours_unhealthy'' = Some (- 720)" "(35::real) < 0 \<or> (50::real) < 0 \<or> (- 720::real) < 0"
    by simp_all
  show ?thesis
    unfolding negative_inputs_are_scored [OF h]
    by (simp add: round2_def round_half_even_def Let_def)
qed

text \<open>
  C10. Two inputs that agree on \<^verbatim>\<open>avg_pm25\<close>, \<^verbatim>\<open>peak_pm25\<close> and \<^verbatim>\<open>hours_unhealthy\<close> get
  the same result, whatever they hold under \<^verbatim>\<open>duration_days\<close> or any other key: the
  function never reads \<^verbatim>\<open>duration_days\<close>.
\<close>

theorem duration_days_ignored:
  assumes "e1 ''avg_pm25'' = e2 ''avg_pm25''"
    and "e1 ''peak_pm25'' = e2 ''peak_pm25''"
    and "e1 ''hours_unhealthy'' = e2 ''hours_unhealthy''"
  shows "calculate_disease_probabilities e1 = calculate_disease_probabilities e2"
  unfolding calculate_disease_probabilities_def getitem_def assms ..

theorem duration_days_ignored_witness:
  "calculate_disease_probabilities typical_exposure =
     calculate_disease_probabilities (typical_exposure(''duration_days'' \<mapsto> 365))"
proof -
  let ?e = "typical_exposure(''duration_days'' \<mapsto> 365)"
  have "typical_exposure ''avg_pm25'' = ?e ''avg_pm25''"
    "typical_exposure ''peak_pm25'' = ?e ''peak_pm25''"
    "typical_exposure ''hours_unhealthy'' = ?e ''hours_unhealthy''"
    by simp_all
  then show ?thesis by (rule duration_days_ignored)
qed

section \<open>Properties of the scaler and of its persisted parameters\<close>

text \<open>
  C7. On a frame with at least one row the scaling step returns a scaled frame with one
  row per measurement, without error. Every scaled value is computed from the cell with a
  missing value replaced by 0, against the minimum and the maximum of the feature taken
  over the cells filled in the same way: it is \<open>(x - min) / (max - min)\<close>, and 0 for
  every row when the maximum equals the minimum.
\<close>

theorem scaling_fills_then_scales:
  assumes "df \<noteq> []"
  shows "\<exists>scaler ndf. scale_features df = Inr (scaler, ndf) \<and> length ndf = length df
     \<and> (\<forall>k<length df. \<forall>j<length feature_cols.
           snd (ndf ! k) ! j =
             (let x = fillna 0 (column (feature_cols ! j)
                        (sort_key (\<lambda>r. (device_id r, measured_at r)) df ! k));
                  mn = Min (set (filled_column df j));
                  mx = Max (set (filled_column df j))
              in if mx = mn then 0 else (x - mn) / (mx - mn)))"
proof -
  let ?sdf = "sort_key (\<lambda>r. (device_id r, measured_at r)) df"
  define scaler where "scaler =
     \<lparr>data_min = map (\<lambda>j. Min (set (filled_column df j))) [0..<length feature_cols],
      data_max = map (\<lambda>j. Max (set (filled_column df j))) [0..<length feature_cols]\<rparr>"
  define ndf where "ndf = zip (map device_id ?sdf) (transform scaler (filled_matrix ?sdf))"
  have n: "scale_features df = Inr (scaler, ndf)"
    using assms by (simp add: scale_features_eq Let_def scaler_def ndf_def)
  have len: "length ndf = length df"
    by (rule scale_features_rows(1) [OF n])
  have cell: "snd (ndf ! k) ! j =
      scale_value (Min (set (filled_column df j))) (Max (set (filled_column df j)))
        (fillna 0 (column (feature_cols ! j) (?sdf ! k)))"
    if k: "k < length df" and j: "j < length feature_cols" for k j
  proof -
    have k': "k < length ?sdf" using k by simp
    have "snd (ndf ! k) = transform scaler (filled_matrix ?sdf) ! k"
      using k by (simp add: ndf_def length_transform filled_matrix_def)
    also have "\<dots> = map (\<lambda>j. scale_value (data_min scaler ! j) (data_max scaler ! j)
                        (filled_matrix ?sdf ! k ! j)) [0..<length (filled_matrix ?sdf ! k)]"
      using k by (intro transform_row) (simp add: filled_matrix_def)
    finally have "snd (ndf ! k) ! j =
        scale_value (data_min scaler ! j) (data_max scaler ! j) (filled_matrix ?sdf ! k ! j)"
      using j filled_matrix_nth(2) [OF k' j] by simp
    then show ?thesis
      using j by (simp add: filled_matrix_nth(1) [OF k' j] scaler_def)
  qed
  show ?thesis
    using n len cell by (auto simp: scale_value_def Let_def)
qed

theorem scaling_fills_then_scales_witness:
  "five_readings \<noteq> []
   \<and> (\<exists>scaler ndf. scale_features five_readings = Inr (scaler, ndf)
        \<and> snd (ndf ! 0) ! 0 = 1 / 7 \<and> snd (ndf ! 0) ! 1 = 0)"
proof -
  have h: "five_readings \<noteq> []"
    by (simp add: five_readings_def)
  have s0: "sort_key (\<lambda>r. (device_id r, measured_at r)) five_readings ! 0 = reading 11 3600 10"
    by (simp add: five_readings_def reading_def)
  have c0: "set (filled_column five_readings 0) = {40, 10, 30, 5, 20}"
    and c1: "set (filled_column five_readings (Suc 0)) = {0}"
    by (simp_all add: filled_column_def five_readings_def reading_def feature_cols_def
          column_def fillna_def)
  have m: "Min {40, 10, 30, 5, 20 :: real} = 5" "Max {40, 10, 30, 5, 20 :: real} = 40"
    by simp_all
  have l: "0 < length five_readings" "0 < length feature_cols" "1 < length feature_cols"
    by (simp_all add: five_readings_def feature_cols_def)
  from scaling_fills_then_scales [OF h] obtain scaler ndf where
    n: "scale_features five_readings = Inr (scaler, ndf)"
    and v: "\<forall>k<length five_readings. \<forall>j<length feature_cols.
           snd (ndf ! k) ! j =
             (let x = fillna 0 (column (feature_cols ! j)
                        (sort_key (\<lambda>r. (device_id r, measured_at r)) five_readings ! k));
                  mn = Min (set (filled_column five_readings j));
                  mx = Max (set (filled_column five_readings j))
              in if mx = mn then 0 else (x - mn) / (mx - mn))"
    by blast
  from v l have "snd (ndf ! 0) ! 0 = 1 / 7"
    by (simp add: s0 c0 m Let_def feature_cols_def column_def fillna_def reading_def)
  moreover from v l have "snd (ndf ! 0) ! 1 = 0"
    by (simp add: c1 Let_def)
  ultimately show ?thesis using h n by blast
qed

text \<open>
  C9, as stated, fails: the record written for three_readings has the fields
  \<^verbatim>\<open>min\<close>, \<^verbatim>\<open>max\<close> and \<^verbatim>\<open>feature_cols\<close>; it has no field \<^verbatim>\<open>feature_names\<close>.
\<close>

theorem scaler_artifact_counterexample:
  "prepare_lstm_data Map.empty three_readings 2 1 =
     Inr ([], [], three_readings_scaler,
          [''models/scaler_params.json'' \<mapsto> three_readings_params])
   \<and> json_field three_readings_params ''feature_names'' = None
   \<and> json_field three_readings_params ''feature_cols'' =
       Some (JArr [JStr ''aqi_calculated'', JStr ''iaq_score'', JStr ''temperature'',
                   JStr ''humidity'', JStr ''pressure_hpa'', JStr ''hour_of_day'',
                   JStr ''day_of_week''])"
  using three_readings_prepared by (simp add: json_field_def three_readings_params_def)

text \<open>
  C9, amended. Whenever \<^verbatim>\<open>prepare_lstm_data\<close> returns, the file
  \<^verbatim>\<open>models/scaler_params.json\<close> holds a record with exactly the fields \<^verbatim>\<open>min\<close> (a list of
  numbers), \<^verbatim>\<open>max\<close> (a list of numbers) and \<^verbatim>\<open>feature_cols\<close> (a list of strings), in this
  order. The three lists have the same length, and at every position the minimum and the
  maximum are those of the feature named at that position, over the filled cells of the
  whole frame.
\<close>

theorem scaler_artifact_fields:
  assumes "prepare_lstm_data files df lookback forecast_horizon = Inr (X, y, scaler, files')"
  shows "files' ''models/scaler_params.json'' =
       Some (JObj [(''min'', JArr (map JNum (data_min scaler))),
                   (''max'', JArr (map JNum (data_max scaler))),
                   (''feature_cols'', JArr (map JStr feature_cols))])
    \<and> length (data_min scaler) = length feature_cols
    \<and> length (data_max scaler) = length feature_cols
    \<and> (\<forall>j<length feature_cols.
          data_min scaler ! j = Min (set (filled_column df j))
        \<and> data_max scaler ! j = Max (set (filled_column df j)))"
proof -
  from assms obtain ndf where n: "scale_features df = Inr (scaler, ndf)"
    and f: "files' = files(''models/scaler_params.json'' \<mapsto> scaler_params scaler)"
    by (auto simp: prepare_lstm_data_def Let_def split: sum.splits prod.splits)
  from n have sc: "scaler =
     \<lparr>data_min = map (\<lambda>j. Min (set (filled_column df j))) [0..<length feature_cols],
      data_max = map (\<lambda>j. Max (set (filled_column df j))) [0..<length feature_cols]\<rparr>"
    by (auto simp: scale_features_eq Let_def split: if_splits)
  have "files' ''models/scaler_params.json'' = Some (scaler_params scaler)"
    by (simp add: f)
  moreover have "length (data_min scaler) = length feature_cols"
    and "length (data_max scaler) = length feature_cols"
    by (simp_all add: sc)
  moreover have "\<forall>j<length feature_cols.
          data_min scaler ! j = Min (set (filled_column df j))
        \<and> data_max scaler ! j = Max (set (filled_column df j))"
    by (simp add: sc)
  ultimately show ?thesis by (simp add: scaler_params_def)
qed

theorem scaler_artifact_fields_witness:
  "\<exists>X y scaler files'.
      prepare_lstm_data Map.empty five_readings 2 1 = Inr (X, y, scaler, files')
    \<and> files' ''models/scaler_params.json'' =
        Some (JObj [(''min'', JArr (map JNum (data_min scaler))),
                    (''max'', JArr (map JNum (data_max scaler))),
                    (''feature_cols'', JArr (map JStr feature_cols))])
    \<and> length (data_min scaler) = 7 \<and> length (data_max scaler) = 7
    \<and> length feature_cols = 7"
  using scaler_artifact_fields [OF five_readings_prepared] five_readings_prepared
  by (simp add: length_feature_cols)

end
